theory Spec2Isabelle
  imports Complex_Main
begin

section \<open>The WebSocket hook of the log viewer (hooks/useWebSocket.ts)\<close>

text \<open>
  The hook keeps React state (\<open>isConnected\<close>, \<open>isConnecting\<close>, \<open>error\<close>,
  \<open>lastMessage\<close>, \<open>connectionStatus\<close>) and four refs (\<open>ws\<close>,
  \<open>reconnectTimeoutRef\<close>, \<open>reconnectCountRef\<close>, \<open>isMountedRef\<close>). Its
  functions \<open>connect\<close>, \<open>disconnect\<close>, \<open>sendMessage\<close> and the four handlers
  it installs on every socket are modelled as functions from state to state. The
  browser objects the code talks to are part of the state: every \<open>WebSocket\<close> ever
  constructed (with its \<open>readyState\<close>, the texts written to it and the \<open>close\<close>
  calls made on it), every timer ever set, and the consumer callbacks invoked so far.
\<close>

subsection \<open>JSON values and JavaScript truthiness\<close>

text \<open>
  A value produced by \<open>JSON.parse\<close>. A number is kept by its value (\<open>-0\<close> is
  identified with \<open>0\<close>; \<open>JSON.parse\<close> yields no \<open>NaN\<close>). An object is the
  association list of its own properties.
\<close>

datatype json =
    JNull
  | JBool bool
  | JNumber rat
  | JString string
  | JArray "json list"
  | JObject "(string \<times> json) list"

text \<open>The operand test of \<open>||\<close>; \<open>None\<close> stands for \<open>undefined\<close>.\<close>

fun truthy :: "json \<Rightarrow> bool" where
  "truthy JNull = False"
| "truthy (JBool b) = b"
| "truthy (JNumber n) = (n \<noteq> 0)"
| "truthy (JString s) = (s \<noteq> [])"
| "truthy (JArray xs) = True"
| "truthy (JObject kvs) = True"

text \<open>
  \<open>v.name\<close> for one of the names \<open>type\<close>, \<open>data\<close>, \<open>timestamp\<close>: reading a
  property of \<open>null\<close> throws a TypeError (\<open>Inl\<close>); numbers, strings, booleans and
  arrays have no property of these names (\<open>undefined\<close>); an object is looked up.
\<close>

datatype js_error = TypeError | SyntaxError

fun property :: "json \<Rightarrow> string \<Rightarrow> js_error + json option" where
  "property JNull name = Inl TypeError"
| "property (JObject kvs) name = Inr (map_of kvs name)"
| "property v name = Inr None"

text \<open>\<open>a || b\<close> where \<open>a\<close> may be \<open>undefined\<close>.\<close>

fun or_else :: "json option \<Rightarrow> json \<Rightarrow> json" where
  "or_else None d = d"
| "or_else (Some v) d = (if truthy v then v else d)"

subsection \<open>Messages, options, sockets, timers\<close>

record WebSocketMessage =
  type :: json
  data :: json
  timestamp :: json

text \<open>
  The options of the hook. A callback is represented by whether the consumer passed
  it; a callback that is invoked is recorded in the state (\<open>calls\<close>) and is assumed
  to return normally without calling back into the hook.
\<close>

record UseWebSocketOptions =
  onOpen :: bool
  onMessage :: bool
  onError :: bool
  onClose :: bool
  reconnectAttempts :: int
  reconnectInterval :: int
  autoConnect :: bool

text \<open>
  What the hook closes over: its arguments \<open>url\<close> and \<open>options\<close>, and the
  built-ins it calls. \<open>JSON_parse\<close> returns \<open>None\<close> where \<open>JSON.parse\<close> throws;
  \<open>JSON_stringify\<close> is \<open>JSON.stringify\<close> on JSON values; \<open>WebSocket_throws\<close> tells
  whether \<open>new WebSocket(url)\<close> throws for this \<open>url\<close>.
\<close>

record props =
  url :: "string option"
  options :: UseWebSocketOptions
  JSON_parse :: "string \<Rightarrow> json option"
  JSON_stringify :: "json \<Rightarrow> string"
  WebSocket_throws :: bool

datatype readyState = CONNECTING | OPEN | CLOSING | CLOSED

text \<open>
  A \<open>WebSocket\<close> object: its target, its \<open>readyState\<close>, the texts handed to
  \<open>send\<close> while it was open, and the arguments of the \<open>close\<close> calls made on it.
\<close>

record socket =
  target :: string
  readyState :: readyState
  sent :: "string list"
  closeCalls :: "(nat \<times> string) option list"

record timer =
  pending :: bool
  delay :: int

datatype connectionStatus = Disconnected | Connecting | Connected | Error

datatype callback =
    OnOpen
  | OnMessage WebSocketMessage
  | OnError
  | OnClose bool

record state =
  isConnected :: bool
  isConnecting :: bool
  error :: "string option"
  lastMessage :: "WebSocketMessage option"
  connectionStatus :: connectionStatus
  ws :: "nat option"
  reconnectTimeoutRef :: "nat option"
  reconnectCountRef :: nat
  isMountedRef :: bool
  sockets :: "socket list"
  timers :: "timer list"
  calls :: "callback list"

definition initial :: state where
  "initial = \<lparr> isConnected = False, isConnecting = False, error = None,
     lastMessage = None, connectionStatus = Disconnected, ws = None,
     reconnectTimeoutRef = None, reconnectCountRef = 0, isMountedRef = True,
     sockets = [], timers = [], calls = [] \<rparr>"

subsection \<open>The browser objects\<close>

text \<open>
  \<open>ws.current\<close> is an index into \<open>sockets\<close>; \<open>current_socket\<close> is the object it
  refers to, \<open>None\<close> when \<open>ws.current\<close> is \<open>null\<close>.
\<close>

definition current_socket :: "state \<Rightarrow> socket option" where
  "current_socket s =
     (case ws s of
        None \<Rightarrow> None
      | Some i \<Rightarrow> (if i < length (sockets s) then Some (sockets s ! i) else None))"

text \<open>
  \<open>WebSocket.close(code, reason)\<close> of the WebSocket API: the call is recorded; a
  socket that is connecting or open starts closing (its \<open>close\<close> event comes
  later, as an event of the transport); a socket already closing or closed is left
  as it is. The arguments \<open>1000, 'Intentional disconnect'\<close> and no arguments at all
  are both accepted without an exception. (The \<open>MockWebSocket\<close> of the test file
  raises the close event inside \<open>close\<close>; the model follows the API, where the
  event is raised after the call has returned.)
\<close>

definition WebSocket_close :: "(nat \<times> string) option \<Rightarrow> socket \<Rightarrow> socket" where
  "WebSocket_close args k =
     k\<lparr> closeCalls := closeCalls k @ [args],
        readyState := (if readyState k = CONNECTING \<or> readyState k = OPEN
                       then CLOSING else readyState k) \<rparr>"

definition close_at :: "nat \<Rightarrow> (nat \<times> string) option \<Rightarrow> socket list \<Rightarrow> socket list" where
  "close_at i args ks = (if i < length ks then ks[i := WebSocket_close args (ks ! i)] else ks)"

definition clearTimeout :: "nat \<Rightarrow> timer list \<Rightarrow> timer list" where
  "clearTimeout t ts = (if t < length ts then ts[t := (ts ! t)\<lparr> pending := False \<rparr>] else ts)"

definition set_readyState :: "nat \<Rightarrow> readyState \<Rightarrow> state \<Rightarrow> state" where
  "set_readyState i r s = s\<lparr> sockets := (sockets s)[i := (sockets s ! i)\<lparr> readyState := r \<rparr>] \<rparr>"

subsection \<open>connect and the handlers it installs\<close>

text \<open>
  \<open>connect\<close> (lines 55 to 157). The guard returns at once when \<open>url\<close> is \<open>null\<close>
  or empty or the current socket is connecting or open. Otherwise three state
  setters run, then \<open>new WebSocket(url)\<close>: when it throws, the catch block runs
  (and does nothing after unmount); when it returns, the new socket becomes
  \<open>ws.current\<close> and gets the four handlers below.
\<close>

definition connect :: "props \<Rightarrow> state \<Rightarrow> state" where
  "connect p s =
     (case url p of
        None \<Rightarrow> s
      | Some u \<Rightarrow>
          if u = [] \<or> map_option readyState (current_socket s) = Some CONNECTING
                   \<or> map_option readyState (current_socket s) = Some OPEN
          then s
          else
            let s1 = s\<lparr> isConnecting := True, connectionStatus := Connecting, error := None \<rparr>
            in if WebSocket_throws p
               then (if \<not> isMountedRef s1 then s1
                     else s1\<lparr> error := Some ''Failed to create WebSocket connection'',
                              connectionStatus := Error, isConnecting := False \<rparr>)
               else s1\<lparr> sockets := sockets s1 @
                            [\<lparr> target = u, readyState = CONNECTING, sent = [], closeCalls = [] \<rparr>],
                        ws := Some (length (sockets s1)) \<rparr>)"

definition invoke :: "bool \<Rightarrow> callback \<Rightarrow> state \<Rightarrow> state" where
  "invoke given c s = (if given then s\<lparr> calls := calls s @ [c] \<rparr> else s)"

definition onopen :: "props \<Rightarrow> state \<Rightarrow> state" where
  "onopen p s =
     (if \<not> isMountedRef s then s
      else invoke (onOpen (options p)) OnOpen
             (s\<lparr> isConnected := True, isConnecting := False, connectionStatus := Connected,
                 error := None, reconnectCountRef := 0 \<rparr>))"

text \<open>
  \<open>onmessage\<close> (lines 80 to 107). \<open>raw\<close> is \<open>event.data\<close>, \<open>now\<close> is what
  \<open>new Date().toISOString()\<close> returns while the frame is handled. A TypeError from
  reading a property of \<open>null\<close> is caught by the outer \<open>try\<close> and only logged.
\<close>

definition build_message :: "json \<Rightarrow> string \<Rightarrow> js_error + WebSocketMessage" where
  "build_message messageData now =
     (case property messageData ''type'' of
        Inl e \<Rightarrow> Inl e
      | Inr t \<Rightarrow>
          (case property messageData ''data'' of
             Inl e \<Rightarrow> Inl e
           | Inr d \<Rightarrow>
               (case property messageData ''timestamp'' of
                  Inl e \<Rightarrow> Inl e
                | Inr ts \<Rightarrow>
                    Inr \<lparr> type = or_else t (JString ''message''),
                          data = or_else d messageData,
                          timestamp = or_else ts (JString now) \<rparr>)))"

definition onmessage :: "props \<Rightarrow> string \<Rightarrow> string \<Rightarrow> state \<Rightarrow> state" where
  "onmessage p raw now s =
     (if \<not> isMountedRef s then s
      else
        let messageData =
              (case JSON_parse p raw of
                 Some v \<Rightarrow> v
               | None \<Rightarrow> JObject [(''type'', JString ''message''), (''data'', JString raw),
                                  (''timestamp'', JString now)])
        in case build_message messageData now of
             Inl e \<Rightarrow> s
           | Inr message \<Rightarrow>
               invoke (onMessage (options p)) (OnMessage message)
                 (s\<lparr> lastMessage := Some message \<rparr>))"

definition onerror :: "props \<Rightarrow> state \<Rightarrow> state" where
  "onerror p s =
     (if \<not> isMountedRef s then s
      else invoke (onError (options p)) OnError
             (s\<lparr> error := Some ''WebSocket connection error'', connectionStatus := Error,
                 isConnecting := False \<rparr>))"

text \<open>
  \<open>onclose\<close> (lines 121 to 148). \<open>setTimeout\<close> appends a pending timer, whose
  index is the handle stored in \<open>reconnectTimeoutRef\<close>.
\<close>

definition onclose :: "props \<Rightarrow> bool \<Rightarrow> state \<Rightarrow> state" where
  "onclose p wasClean s =
     (if \<not> isMountedRef s then s
      else
        let s1 = s\<lparr> isConnected := False, isConnecting := False \<rparr>;
            s2 = (if wasClean then s1\<lparr> connectionStatus := Disconnected \<rparr>
                  else s1\<lparr> connectionStatus := Error,
                           error := Some ''Connection lost unexpectedly'' \<rparr>);
            s3 = invoke (onClose (options p)) (OnClose wasClean) s2
        in if \<not> wasClean \<and> int (reconnectCountRef s3) < reconnectAttempts (options p)
           then s3\<lparr> reconnectCountRef := reconnectCountRef s3 + 1,
                    timers := timers s3 @ [\<lparr> pending = True, delay = reconnectInterval (options p) \<rparr>],
                    reconnectTimeoutRef := Some (length (timers s3)) \<rparr>
           else s3)"

text \<open>The callback given to \<open>setTimeout\<close> (lines 142 to 146).\<close>

definition retry :: "props \<Rightarrow> state \<Rightarrow> state" where
  "retry p s = (if isMountedRef s then connect p s else s)"

subsection \<open>disconnect, sendMessage and the effect cleanups\<close>

definition disconnect :: "state \<Rightarrow> state" where
  "disconnect s =
     (let s1 = (case reconnectTimeoutRef s of
                  None \<Rightarrow> s
                | Some t \<Rightarrow> s\<lparr> timers := clearTimeout t (timers s), reconnectTimeoutRef := None \<rparr>);
          s2 = (case ws s1 of
                  None \<Rightarrow> s1
                | Some i \<Rightarrow> s1\<lparr> sockets := close_at i (Some (1000, ''Intentional disconnect'')) (sockets s1),
                               ws := None \<rparr>)
      in s2\<lparr> isConnected := False, isConnecting := False, connectionStatus := Disconnected,
             error := None, reconnectCountRef := 0 \<rparr>)"

text \<open>
  The argument of \<open>sendMessage\<close> has type \<open>any\<close>: a JSON value (a string among
  them), a value for which \<open>JSON.stringify\<close> returns \<open>undefined\<close> (\<open>undefined\<close>
  itself, a function, a symbol), or a value on which it throws (a cyclic object, a
  BigInt). \<open>ws.send(undefined)\<close> writes the text \<open>undefined\<close>.
\<close>

datatype any = Json json | Undefined | Unserializable

fun messageString :: "props \<Rightarrow> any \<Rightarrow> js_error + string" where
  "messageString p (Json (JString m)) = Inr m"
| "messageString p (Json v) = Inr (JSON_stringify p v)"
| "messageString p Undefined = Inr ''undefined''"
| "messageString p Unserializable = Inl TypeError"

text \<open>
  \<open>sendMessage\<close> (lines 177 to 190). \<open>write_throws\<close> tells whether \<open>ws.send\<close>
  throws on this call.
\<close>

definition sendMessage :: "props \<Rightarrow> any \<Rightarrow> bool \<Rightarrow> state \<Rightarrow> state" where
  "sendMessage p message write_throws s =
     (if map_option readyState (current_socket s) = Some OPEN
      then (case messageString p message of
              Inl e \<Rightarrow> s\<lparr> error := Some ''Failed to send message'' \<rparr>
            | Inr text \<Rightarrow>
                if write_throws then s\<lparr> error := Some ''Failed to send message'' \<rparr>
                else (case ws s of
                        None \<Rightarrow> s
                      | Some i \<Rightarrow>
                          s\<lparr> sockets := (sockets s)[i := (sockets s ! i)\<lparr> sent := sent (sockets s ! i) @ [text] \<rparr>] \<rparr>))
      else s\<lparr> error := Some ''Cannot send message: not connected'' \<rparr>)"

text \<open>
  The cleanup of the auto-connect effect (lines 198 to 201) and the cleanup of the
  second effect (lines 206 to 214); on unmount React runs them in this order.
\<close>

definition effect_cleanup :: "state \<Rightarrow> state" where
  "effect_cleanup s = disconnect (s\<lparr> isMountedRef := False \<rparr>)"

definition unmount_cleanup :: "state \<Rightarrow> state" where
  "unmount_cleanup s =
     (let s1 = s\<lparr> isMountedRef := False \<rparr>;
          s2 = (case reconnectTimeoutRef s1 of
                  None \<Rightarrow> s1
                | Some t \<Rightarrow> s1\<lparr> timers := clearTimeout t (timers s1) \<rparr>)
      in case ws s2 of
           None \<Rightarrow> s2
         | Some i \<Rightarrow> s2\<lparr> sockets := close_at i None (sockets s2) \<rparr>)"

text \<open>The auto-connect effect on mount (lines 193 to 196).\<close>

definition mount :: "props \<Rightarrow> state" where
  "mount p =
     (if autoConnect (options p) \<and> url p \<noteq> None \<and> url p \<noteq> Some []
      then connect p initial else initial)"

subsection \<open>Events\<close>

text \<open>
  What can happen to a mounted hook: the consumer calls one of the three functions
  the hook returns, the transport raises an event on one of the sockets, a timer
  fires, or the component unmounts. A transport event carries the index of its
  socket. As in the WebSocket API, \<open>open\<close> comes only to a connecting socket and
  makes it open, \<open>message\<close> comes only to an open socket, \<open>close\<close> comes once to a
  socket that is not yet closed and makes it closed, and a timer fires once, while
  pending. \<open>SockClosing\<close> is the closing handshake started by the server: an open
  socket becomes closing and no handler runs; its \<open>close\<close> event comes later. An
  event that cannot happen in the current state changes nothing.
\<close>

datatype event =
    Connect
  | Disconnect
  | SendMessage any bool
  | SockOpen nat
  | SockMessage nat string string
  | SockError nat
  | SockClosing nat
  | SockClose nat bool
  | TimerFire nat
  | Unmount

fun step :: "props \<Rightarrow> state \<Rightarrow> event \<Rightarrow> state" where
  "step p s Connect = connect p s"
| "step p s Disconnect = disconnect s"
| "step p s (SendMessage message write_throws) = sendMessage p message write_throws s"
| "step p s (SockOpen i) =
     (if i < length (sockets s) \<and> readyState (sockets s ! i) = CONNECTING
      then onopen p (set_readyState i OPEN s) else s)"
| "step p s (SockMessage i raw now) =
     (if i < length (sockets s) \<and> readyState (sockets s ! i) = OPEN
      then onmessage p raw now s else s)"
| "step p s (SockError i) =
     (if i < length (sockets s) then onerror p s else s)"
| "step p s (SockClosing i) =
     (if i < length (sockets s) \<and> readyState (sockets s ! i) = OPEN
      then set_readyState i CLOSING s else s)"
| "step p s (SockClose i wasClean) =
     (if i < length (sockets s) \<and> readyState (sockets s ! i) \<noteq> CLOSED
      then onclose p wasClean (set_readyState i CLOSED s) else s)"
| "step p s (TimerFire t) =
     (if t < length (timers s) \<and> pending (timers s ! t)
      then retry p (s\<lparr> timers := clearTimeout t (timers s) \<rparr>) else s)"
| "step p s Unmount = unmount_cleanup (effect_cleanup s)"

definition run :: "props \<Rightarrow> state \<Rightarrow> event list \<Rightarrow> state" where
  "run p s evs = foldl (step p) s evs"

subsection \<open>Observations on a state\<close>

text \<open>
  A transport counts as open while its socket is connecting or open. \<open>tracked\<close>
  says that only the socket in \<open>ws.current\<close> can be open; \<open>connected_open\<close>
  says that the status \<open>connected\<close> is shown only by a mounted hook whose current
  socket is open or, after the server has started the closing handshake, closing.
  Both hold in every state the hook reaches (\<open>coherent_run\<close>).
\<close>

definition live :: "socket \<Rightarrow> bool" where
  "live k \<longleftrightarrow> readyState k = CONNECTING \<or> readyState k = OPEN"

definition open_transports :: "state \<Rightarrow> socket list" where
  "open_transports s = filter live (sockets s)"

definition tracked :: "state \<Rightarrow> bool" where
  "tracked s \<longleftrightarrow> (\<forall>i < length (sockets s). live (sockets s ! i) \<longrightarrow> ws s = Some i)"

definition connected_open :: "state \<Rightarrow> bool" where
  "connected_open s \<longleftrightarrow>
     (connectionStatus s = Connected \<longrightarrow>
        isMountedRef s \<and>
        (map_option readyState (current_socket s) = Some OPEN \<or>
         map_option readyState (current_socket s) = Some CLOSING))"

definition coherent :: "state \<Rightarrow> bool" where
  "coherent s \<longleftrightarrow> tracked s \<and> connected_open s"


text \<open>
  Events that are not a call of the consumer: those of the transport and of the
  timers. \<open>automatic\<close> adds \<open>sendMessage\<close>, leaving out \<open>connect\<close>,
  \<open>disconnect\<close> and the unmount.
\<close>

fun transport_or_timer :: "event \<Rightarrow> bool" where
  "transport_or_timer (SockOpen i) = True"
| "transport_or_timer (SockMessage i raw now) = True"
| "transport_or_timer (SockError i) = True"
| "transport_or_timer (SockClosing i) = True"
| "transport_or_timer (SockClose i wasClean) = True"
| "transport_or_timer (TimerFire t) = True"
| "transport_or_timer e = False"

fun automatic :: "event \<Rightarrow> bool" where
  "automatic (SendMessage message write_throws) = True"
| "automatic e = transport_or_timer e"

text \<open>
  The retry budget is used up: the counter has reached \<open>reconnectAttempts\<close>, no
  timer is pending and no socket is connecting.
\<close>

definition exhausted :: "props \<Rightarrow> state \<Rightarrow> bool" where
  "exhausted p s \<longleftrightarrow>
     reconnectAttempts (options p) \<le> int (reconnectCountRef s) \<and>
     list_all (\<lambda>t. \<not> pending t) (timers s) \<and>
     list_all (\<lambda>k. readyState k \<noteq> CONNECTING) (sockets s)"

subsection \<open>Example arguments\<close>

text \<open>
  The target of the scenarios of the specification, all four callbacks given, two
  retries. \<open>example_parse\<close> is \<open>JSON.parse\<close> on the frames used below: the two
  object frames parse, every other frame used (\<open>line1\<close>, the empty frame) is not
  JSON. \<open>example_stringify\<close> is \<open>JSON.stringify\<close> on the one object sent below.
\<close>

definition example_options :: UseWebSocketOptions where
  "example_options = \<lparr> onOpen = True, onMessage = True, onError = True, onClose = True,
     reconnectAttempts = 2, reconnectInterval = 3000, autoConnect = False \<rparr>"

definition example_parse :: "string \<Rightarrow> json option" where
  "example_parse = map_of
     [(''{\"type\":\"log\",\"data\":\"line2\"}'',
         JObject [(''type'', JString ''log''), (''data'', JString ''line2'')]),
      (''{\"type\":\"progress\",\"data\":0,\"timestamp\":\"2024-01-01T00:00:00.000Z\"}'',
         JObject [(''type'', JString ''progress''), (''data'', JNumber 0),
                  (''timestamp'', JString ''2024-01-01T00:00:00.000Z'')])]"

definition example_stringify :: "json \<Rightarrow> string" where
  "example_stringify v =
     (if v = JObject [(''type'', JString ''ping'')] then ''{\"type\":\"ping\"}'' else ''null'')"

definition example_props :: props where
  "example_props = \<lparr> url = Some ''ws://host/logs/abc123'', options = example_options,
     JSON_parse = example_parse, JSON_stringify = example_stringify,
     WebSocket_throws = False \<rparr>"

definition one_retry_props :: props where
  "one_retry_props = example_props\<lparr> options := example_options\<lparr> reconnectAttempts := 1 \<rparr> \<rparr>"

definition no_retry_props :: props where
  "no_retry_props = example_props\<lparr> options := example_options\<lparr> reconnectAttempts := 0 \<rparr> \<rparr>"


section \<open>Invariants of the reachable states\<close>

lemmas example_defs = example_props_def example_options_def one_retry_props_def
  no_retry_props_def example_parse_def example_stringify_def

lemmas hook_defs = run_def connect_def disconnect_def sendMessage_def onopen_def onmessage_def
  onerror_def onclose_def retry_def invoke_def current_socket_def set_readyState_def close_at_def
  WebSocket_close_def clearTimeout_def initial_def build_message_def effect_cleanup_def
  unmount_cleanup_def mount_def Let_def

lemma length_close_at [simp]: "length (close_at j a ks) = length ks"
  by (simp add: close_at_def)

lemma live_close_at:
  "i < length ks \<Longrightarrow> live (close_at j a ks ! i) \<longleftrightarrow> i \<noteq> j \<and> live (ks ! i)"
  by (simp add: close_at_def WebSocket_close_def live_def nth_list_update)

lemma connect_cases:
  "connect p s = s \<or>
   (sockets (connect p s) = sockets s \<and> ws (connect p s) = ws s \<and>
    connectionStatus (connect p s) \<noteq> Connected) \<or>
   ((\<forall>k. current_socket s = Some k \<longrightarrow> \<not> live k) \<and>
    (\<exists>k. live k \<and> sockets (connect p s) = sockets s @ [k]) \<and>
    ws (connect p s) = Some (length (sockets s)) \<and>
    connectionStatus (connect p s) = Connecting)"
  by (simp add: connect_def Let_def live_def split: option.splits)

lemma tracked_current:
  "tracked s \<Longrightarrow> i < length (sockets s) \<Longrightarrow> live (sockets s ! i) \<Longrightarrow>
   current_socket s = Some (sockets s ! i)"
  by (simp add: tracked_def current_socket_def)

lemma coherent_connect: "coherent s \<Longrightarrow> coherent (connect p s)"
proof -
  assume c: "coherent s"
  consider (same) "connect p s = s"
    | (thrown) "sockets (connect p s) = sockets s" "ws (connect p s) = ws s"
        "connectionStatus (connect p s) \<noteq> Connected"
    | (new) k where "\<forall>k. current_socket s = Some k \<longrightarrow> \<not> live k" "live k"
        "sockets (connect p s) = sockets s @ [k]" "ws (connect p s) = Some (length (sockets s))"
        "connectionStatus (connect p s) = Connecting"
    using connect_cases [of p s] by blast
  then show ?thesis
  proof cases
    case same
    with c show ?thesis by simp
  next
    case thrown
    with c show ?thesis by (simp add: coherent_def tracked_def connected_open_def)
  next
    case new
    have none: "\<not> live (sockets s ! i)" if "i < length (sockets s)" for i
      using c new(1) that tracked_current [of s i] by (auto simp: coherent_def)
    have "tracked (connect p s)"
      unfolding tracked_def using new(3,4) none by (auto simp: nth_append)
    with new(5) show ?thesis by (simp add: coherent_def connected_open_def)
  qed
qed

lemma disconnect_frame:
  "ws (disconnect s) = None"
  "connectionStatus (disconnect s) = Disconnected"
  "sockets (disconnect s) =
     (case ws s of None \<Rightarrow> sockets s
      | Some i \<Rightarrow> close_at i (Some (1000, ''Intentional disconnect'')) (sockets s))"
  by (simp_all add: disconnect_def Let_def split: option.splits)

lemma tracked_no_current:
  "tracked s \<Longrightarrow> ws s = None \<Longrightarrow> i < length (sockets s) \<Longrightarrow> \<not> live (sockets s ! i)"
  by (auto simp: tracked_def)

lemma coherent_disconnect: "coherent s \<Longrightarrow> coherent (disconnect s)"
proof -
  assume c: "coherent s"
  have "\<not> live (sockets (disconnect s) ! i)" if "i < length (sockets (disconnect s))" for i
  proof (cases "ws s")
    case None
    with c that show ?thesis
      by (simp add: disconnect_frame coherent_def tracked_no_current)
  next
    case (Some j)
    with c that show ?thesis
      by (auto simp: disconnect_frame coherent_def tracked_def live_close_at)
  qed
  then show ?thesis
    by (simp add: coherent_def tracked_def connected_open_def disconnect_frame)
qed

lemma sendMessage_frame:
  "ws (sendMessage p m w s) = ws s"
  "connectionStatus (sendMessage p m w s) = connectionStatus s"
  "isMountedRef (sendMessage p m w s) = isMountedRef s"
  "length (sockets (sendMessage p m w s)) = length (sockets s)"
  "i < length (sockets s) \<Longrightarrow>
     readyState (sockets (sendMessage p m w s) ! i) = readyState (sockets s ! i)"
  by (auto simp: sendMessage_def current_socket_def nth_list_update split: sum.splits option.splits if_splits)

lemma same_readyStates:
  assumes "ws s' = ws s" "length (sockets s') = length (sockets s)"
    "\<And>i. i < length (sockets s) \<Longrightarrow> readyState (sockets s' ! i) = readyState (sockets s ! i)"
  shows "tracked s' = tracked s"
    and "map_option readyState (current_socket s') = map_option readyState (current_socket s)"
  using assms by (simp_all add: tracked_def live_def current_socket_def split: option.splits)

lemma coherent_sendMessage: "coherent s \<Longrightarrow> coherent (sendMessage p m w s)"
  using same_readyStates [of "sendMessage p m w s" s]
  by (simp add: coherent_def connected_open_def sendMessage_frame)

lemma onopen_frame:
  "sockets (onopen p s) = sockets s" "ws (onopen p s) = ws s"
  "isMountedRef (onopen p s) = isMountedRef s"
  "connectionStatus (onopen p s) = (if isMountedRef s then Connected else connectionStatus s)"
  by (simp_all add: onopen_def invoke_def)

lemma onmessage_frame:
  "sockets (onmessage p raw now s) = sockets s" "ws (onmessage p raw now s) = ws s"
  "isMountedRef (onmessage p raw now s) = isMountedRef s"
  "connectionStatus (onmessage p raw now s) = connectionStatus s"
  by (simp_all add: onmessage_def invoke_def Let_def split: sum.splits)

lemma onerror_frame:
  "sockets (onerror p s) = sockets s" "ws (onerror p s) = ws s"
  "isMountedRef (onerror p s) = isMountedRef s"
  "connectionStatus (onerror p s) = (if isMountedRef s then Error else connectionStatus s)"
  by (simp_all add: onerror_def invoke_def)

lemma onclose_frame:
  "sockets (onclose p c s) = sockets s" "ws (onclose p c s) = ws s"
  "isMountedRef (onclose p c s) = isMountedRef s"
  "connectionStatus (onclose p c s) =
     (if isMountedRef s then (if c then Disconnected else Error) else connectionStatus s)"
  by (simp_all add: onclose_def invoke_def Let_def)

lemma set_readyState_frame:
  "sockets (set_readyState i r s) = (sockets s)[i := (sockets s ! i)\<lparr> readyState := r \<rparr>]"
  "ws (set_readyState i r s) = ws s"
  "isMountedRef (set_readyState i r s) = isMountedRef s"
  "connectionStatus (set_readyState i r s) = connectionStatus s"
  by (simp_all add: set_readyState_def)

lemma coherent_mounted: "coherent s \<Longrightarrow> \<not> isMountedRef s \<Longrightarrow> connectionStatus s \<noteq> Connected"
  by (auto simp: coherent_def connected_open_def)

lemma tracked_update:
  assumes "tracked s" "sockets s' = (sockets s)[i := k]" "ws s' = ws s"
    "live k \<Longrightarrow> ws s = Some i"
  shows "tracked s'"
  unfolding tracked_def
proof (intro allI impI)
  fix j assume j: "j < length (sockets s')" "live (sockets s' ! j)"
  show "ws s' = Some j"
  proof (cases "j = i")
    case True
    with j assms(2-4) show ?thesis by simp
  next
    case False
    with j assms(1-3) show ?thesis by (simp add: tracked_def)
  qed
qed

lemma coherent_SockOpen:
  assumes "coherent s" "i < length (sockets s)" "readyState (sockets s ! i) = CONNECTING"
  shows "coherent (onopen p (set_readyState i OPEN s))"
proof -
  let ?s' = "onopen p (set_readyState i OPEN s)"
  have cur: "ws s = Some i"
    using assms by (simp add: coherent_def tracked_def live_def)
  have "tracked ?s'"
    using assms(1) cur
    by (intro tracked_update [of s ?s' i "(sockets s ! i)\<lparr> readyState := OPEN \<rparr>"])
      (simp_all add: coherent_def onopen_frame set_readyState_frame)
  moreover have "connected_open ?s'"
    using assms(2) cur coherent_mounted [OF assms(1)]
    by (simp add: connected_open_def current_socket_def onopen_frame set_readyState_frame)
  ultimately show ?thesis by (simp add: coherent_def)
qed

lemma coherent_SockClosing:
  assumes "coherent s" "i < length (sockets s)" "readyState (sockets s ! i) = OPEN"
  shows "coherent (set_readyState i CLOSING s)"
proof -
  let ?s' = "set_readyState i CLOSING s"
  have cur: "ws s = Some i"
    using assms by (simp add: coherent_def tracked_def live_def)
  have "tracked ?s'"
    using assms(1)
    by (intro tracked_update [of s ?s' i "(sockets s ! i)\<lparr> readyState := CLOSING \<rparr>"])
      (simp_all add: coherent_def live_def set_readyState_frame)
  moreover have "connected_open ?s'"
    using assms(1,2) cur
    by (simp add: coherent_def connected_open_def current_socket_def set_readyState_frame)
  ultimately show ?thesis by (simp add: coherent_def)
qed

lemma coherent_SockClose:
  assumes "coherent s" "i < length (sockets s)"
  shows "coherent (onclose p c (set_readyState i CLOSED s))"
proof -
  let ?s' = "onclose p c (set_readyState i CLOSED s)"
  have "tracked ?s'"
    using assms(1)
    by (intro tracked_update [of s ?s' i "(sockets s ! i)\<lparr> readyState := CLOSED \<rparr>"])
      (simp_all add: coherent_def live_def onclose_frame set_readyState_frame)
  moreover have "connected_open ?s'"
    using coherent_mounted [OF assms(1)]
    by (simp add: connected_open_def onclose_frame set_readyState_frame)
  ultimately show ?thesis by (simp add: coherent_def)
qed

lemma coherent_onmessage: "coherent s \<Longrightarrow> coherent (onmessage p raw now s)"
  using same_readyStates [of "onmessage p raw now s" s]
  by (simp add: coherent_def connected_open_def onmessage_frame)

lemma coherent_onerror: "coherent s \<Longrightarrow> coherent (onerror p s)"
  using same_readyStates [of "onerror p s" s]
  by (auto simp: coherent_def connected_open_def onerror_frame)

lemma coherent_timers: "coherent s \<Longrightarrow> coherent (s\<lparr> timers := ts \<rparr>)"
  using same_readyStates [of "s\<lparr> timers := ts \<rparr>" s]
  by (simp add: coherent_def connected_open_def)

lemma coherent_retry: "coherent s \<Longrightarrow> coherent (retry p s)"
  by (simp add: retry_def coherent_connect)

lemma unmount_cleanup_disconnected:
  "ws s = None \<Longrightarrow> sockets (unmount_cleanup s) = sockets s \<and> ws (unmount_cleanup s) = None \<and>
     connectionStatus (unmount_cleanup s) = connectionStatus s"
  by (simp add: unmount_cleanup_def Let_def split: option.splits)

lemma coherent_Unmount: "coherent s \<Longrightarrow> coherent (unmount_cleanup (effect_cleanup s))"
proof -
  assume c: "coherent s"
  have d: "coherent (disconnect s)" using c by (rule coherent_disconnect)
  have eq: "sockets (effect_cleanup s) = sockets (disconnect s)"
    "ws (effect_cleanup s) = None" "connectionStatus (effect_cleanup s) = Disconnected"
    by (simp_all add: effect_cleanup_def disconnect_def Let_def split: option.splits)
  have u: "sockets (unmount_cleanup (effect_cleanup s)) = sockets (disconnect s)"
    "ws (unmount_cleanup (effect_cleanup s)) = None"
    "connectionStatus (unmount_cleanup (effect_cleanup s)) = Disconnected"
    using unmount_cleanup_disconnected [OF eq(2)] eq by simp_all
  from d show ?thesis
    by (simp add: coherent_def tracked_def connected_open_def u disconnect_frame(1))
qed

lemma coherent_step: "coherent s \<Longrightarrow> coherent (step p s e)"
proof (cases e)
  case (TimerFire t)
  then show "coherent s \<Longrightarrow> ?thesis"
    by (simp add: coherent_retry coherent_timers)
qed (simp_all add: coherent_connect coherent_disconnect coherent_sendMessage coherent_SockOpen
    coherent_SockClosing coherent_SockClose coherent_onmessage coherent_onerror coherent_Unmount)

lemma coherent_run: "coherent s \<Longrightarrow> coherent (run p s evs)"
  unfolding run_def by (induction evs arbitrary: s) (simp_all add: coherent_step)

lemma coherent_initial: "coherent initial"
  by (simp add: coherent_def tracked_def connected_open_def initial_def)

lemma coherent_mount: "coherent (mount p)"
  by (simp add: mount_def coherent_initial coherent_connect)

lemma tracked_open_transports: "tracked s \<Longrightarrow> length (open_transports s) \<le> 1"
proof -
  have "(\<forall>i < length ks. live (ks ! i) \<longrightarrow> w = Some i) \<Longrightarrow> length (filter live ks) \<le> 1"
    for ks :: "socket list" and w
  proof (induction ks rule: rev_induct)
    case Nil
    then show ?case by simp
  next
    case (snoc k ks)
    have "\<forall>i < length ks. live (ks ! i) \<longrightarrow> w = Some i"
    proof (intro allI impI)
      fix i assume "i < length ks" "live (ks ! i)"
      with snoc.prems [rule_format, of i] show "w = Some i"
        by (simp add: nth_append)
    qed
    then have ih: "length (filter live ks) \<le> 1"
      by (rule snoc.IH)
    show ?case
    proof (cases "live k")
      case False
      with ih show ?thesis by simp
    next
      case True
      with snoc.prems [rule_format, of "length ks"] have w: "w = Some (length ks)"
        by simp
      have "\<not> live (ks ! i)" if "i < length ks" for i
        using snoc.prems [rule_format, of i] w that by (auto simp: nth_append)
      then have "filter live ks = []"
        by (auto simp: filter_empty_conv in_set_conv_nth)
      with True show ?thesis by simp
    qed
  qed
  then show "tracked s \<Longrightarrow> ?thesis"
    by (simp add: tracked_def open_transports_def)
qed

section \<open>connect without a target\<close>

text \<open>
  Claim C9. When \<open>url\<close> is \<open>null\<close> or the empty string, \<open>connect\<close> returns at
  once: the whole state is the one before the call, so no socket is created, no
  error is set, and the status, the retry counter and the last error are unchanged.
\<close>

theorem connect_without_target:
  "url p = None \<or> url p = Some [] \<Longrightarrow> connect p s = s"
  by (auto simp: connect_def)

text \<open>
  The theorem at a \<open>null\<close> target in the initial state and at an empty target
  after an abnormal close.
\<close>

theorem connect_without_target_witness:
  "url (example_props\<lparr> url := None \<rparr>) = None \<and>
   connect (example_props\<lparr> url := None \<rparr>) initial = initial \<and>
   url (example_props\<lparr> url := Some [] \<rparr>) = Some [] \<and>
   connect (example_props\<lparr> url := Some [] \<rparr>)
     (run example_props initial [Connect, SockOpen 0, SockClose 0 False]) =
   run example_props initial [Connect, SockOpen 0, SockClose 0 False]"
  using connect_without_target [of "example_props\<lparr> url := None \<rparr>" initial]
    connect_without_target [of "example_props\<lparr> url := Some [] \<rparr>"
      "run example_props initial [Connect, SockOpen 0, SockClose 0 False]"]
  by simp

section \<open>The status after an abnormal close\<close>

text \<open>
  With \<open>reconnectAttempts = 0\<close> the retry counter of a connected hook has already
  reached the maximum. The socket then closes abnormally and the status becomes
  \<open>error\<close>, not \<open>disconnected\<close>: claim C6 as stated fails here.
\<close>

theorem abnormal_close_exhausted_counterexample:
  "connectionStatus (run no_retry_props initial [Connect, SockOpen 0]) = Connected \<and>
   reconnectAttempts (options no_retry_props) \<le>
     int (reconnectCountRef (run no_retry_props initial [Connect, SockOpen 0])) \<and>
   connectionStatus (run no_retry_props initial [Connect, SockOpen 0, SockClose 0 False]) = Error \<and>
   connectionStatus (run no_retry_props initial [Connect, SockOpen 0, SockClose 0 False]) \<noteq> Disconnected"
  by (simp add: example_defs hook_defs)

text \<open>
  Claim C6, amended. For a mounted hook, an abnormal close always sets the status to
  \<open>error\<close> (with the error text \<open>Connection lost unexpectedly\<close>), whatever the
  retry counter; the counter only decides whether a retry timer is set (it is, when
  the counter is below \<open>reconnectAttempts\<close>). The status \<open>disconnected\<close> comes
  from a clean close.
\<close>

theorem abnormal_close_status:
  assumes "isMountedRef s" "i < length (sockets s)" "readyState (sockets s ! i) \<noteq> CLOSED"
  shows "connectionStatus (step p s (SockClose i False)) = Error \<and>
         error (step p s (SockClose i False)) = Some ''Connection lost unexpectedly'' \<and>
         \<not> isConnected (step p s (SockClose i False)) \<and>
         timers (step p s (SockClose i False)) =
           (if int (reconnectCountRef s) < reconnectAttempts (options p)
            then timers s @ [\<lparr> pending = True, delay = reconnectInterval (options p) \<rparr>]
            else timers s) \<and>
         connectionStatus (step p s (SockClose i True)) = Disconnected"
  using assms by (simp add: onclose_def invoke_def set_readyState_def Let_def)

text \<open>The theorem at a connected hook, without retries and with two retries.\<close>

theorem abnormal_close_status_witness:
  "isMountedRef (run no_retry_props initial [Connect, SockOpen 0]) \<and>
   0 < length (sockets (run no_retry_props initial [Connect, SockOpen 0])) \<and>
   readyState (sockets (run no_retry_props initial [Connect, SockOpen 0]) ! 0) \<noteq> CLOSED \<and>
   connectionStatus (step no_retry_props (run no_retry_props initial [Connect, SockOpen 0])
     (SockClose 0 False)) = Error \<and>
   timers (step no_retry_props (run no_retry_props initial [Connect, SockOpen 0])
     (SockClose 0 False)) = [] \<and>
   connectionStatus (step example_props (run example_props initial [Connect, SockOpen 0])
     (SockClose 0 False)) = Error \<and>
   timers (step example_props (run example_props initial [Connect, SockOpen 0])
     (SockClose 0 False)) = [\<lparr> pending = True, delay = 3000 \<rparr>]"
proof -
  have a: "isMountedRef (run no_retry_props initial [Connect, SockOpen 0])"
    "0 < length (sockets (run no_retry_props initial [Connect, SockOpen 0]))"
    "readyState (sockets (run no_retry_props initial [Connect, SockOpen 0]) ! 0) \<noteq> CLOSED"
    by (simp_all add: example_defs hook_defs)
  have b: "isMountedRef (run example_props initial [Connect, SockOpen 0])"
    "0 < length (sockets (run example_props initial [Connect, SockOpen 0]))"
    "readyState (sockets (run example_props initial [Connect, SockOpen 0]) ! 0) \<noteq> CLOSED"
    by (simp_all add: example_defs hook_defs)
  have c: "reconnectCountRef (run no_retry_props initial [Connect, SockOpen 0]) = 0"
    "timers (run no_retry_props initial [Connect, SockOpen 0]) = []"
    "reconnectCountRef (run example_props initial [Connect, SockOpen 0]) = 0"
    "timers (run example_props initial [Connect, SockOpen 0]) = []"
    "reconnectAttempts (options no_retry_props) = 0"
    "reconnectAttempts (options example_props) = 2"
    "reconnectInterval (options example_props) = 3000"
    by (simp_all add: example_defs hook_defs)
  show ?thesis
    using a abnormal_close_status [OF a, of no_retry_props]
      abnormal_close_status [OF b, of example_props]
    by (simp add: c)
qed

section \<open>Frames that are not JSON\<close>

text \<open>
  Claim C2 at the empty frame. \<open>JSON.parse\<close> throws on the empty text, the handler
  wraps it as \<open>{type: 'message', data: '', timestamp}\<close>, and \<open>messageData.data ||
  messageData\<close> then takes the wrapper, because the empty string is falsy: one
  message is delivered, with the default type, but its payload is the wrapper
  object and not the raw frame text.
\<close>

theorem empty_frame_payload:
  "JSON_parse example_props [] = None \<and>
   lastMessage (run example_props initial
      [Connect, SockOpen 0, SockMessage 0 [] ''2024-01-01T00:00:00.000Z'']) =
     Some \<lparr> type = JString ''message'',
            data = JObject [(''type'', JString ''message''), (''data'', JString []),
                            (''timestamp'', JString ''2024-01-01T00:00:00.000Z'')],
            timestamp = JString ''2024-01-01T00:00:00.000Z'' \<rparr> \<and>
   data (the (lastMessage (run example_props initial
      [Connect, SockOpen 0, SockMessage 0 [] ''2024-01-01T00:00:00.000Z'']))) \<noteq> JString []"
  by (simp add: example_defs hook_defs)

text \<open>
  For every other frame that is not JSON the handler of a mounted hook does what
  claim C2 says: one message, type \<open>message\<close>, the raw text as payload.
\<close>

lemma malformed_frame_delivered:
  assumes "isMountedRef s" "JSON_parse p raw = None" "raw \<noteq> []"
  shows "onmessage p raw now s =
     invoke (onMessage (options p))
       (OnMessage \<lparr> type = JString ''message'', data = JString raw, timestamp = JString now \<rparr>)
       (s\<lparr> lastMessage :=
            Some \<lparr> type = JString ''message'', data = JString raw, timestamp = JString now \<rparr> \<rparr>)"
  using assms by (simp add: onmessage_def build_message_def Let_def)

section \<open>Frames that parse as an object\<close>

text \<open>
  Claim C8 at a frame whose \<open>data\<close> field is the number \<open>0\<close>. The frame parses
  as an object with the three fields, but \<open>messageData.data || messageData\<close> takes
  the whole object, because \<open>0\<close> is falsy: the message delivered carries the parsed
  object as payload and not the value of its \<open>data\<close> field.
\<close>

theorem falsy_data_field_payload:
  "JSON_parse example_props
      ''{\"type\":\"progress\",\"data\":0,\"timestamp\":\"2024-01-01T00:00:00.000Z\"}'' =
     Some (JObject [(''type'', JString ''progress''), (''data'', JNumber 0),
                    (''timestamp'', JString ''2024-01-01T00:00:00.000Z'')]) \<and>
   lastMessage (run example_props initial
      [Connect, SockOpen 0,
       SockMessage 0
         ''{\"type\":\"progress\",\"data\":0,\"timestamp\":\"2024-01-01T00:00:00.000Z\"}''
         ''2024-01-01T00:00:05.000Z'']) =
     Some \<lparr> type = JString ''progress'',
            data = JObject [(''type'', JString ''progress''), (''data'', JNumber 0),
                            (''timestamp'', JString ''2024-01-01T00:00:00.000Z'')],
            timestamp = JString ''2024-01-01T00:00:00.000Z'' \<rparr> \<and>
   map_option data (lastMessage (run example_props initial
      [Connect, SockOpen 0,
       SockMessage 0
         ''{\"type\":\"progress\",\"data\":0,\"timestamp\":\"2024-01-01T00:00:00.000Z\"}''
         ''2024-01-01T00:00:05.000Z''])) \<noteq> Some (JNumber 0)"
  by (simp add: example_defs hook_defs)

text \<open>
  For a frame that parses as an object whose three fields are present and truthy,
  the handler of a mounted hook does what claim C8 says: one message, made of the
  three field values as they are.
\<close>

lemma truthy_fields_verbatim:
  assumes "isMountedRef s" "JSON_parse p raw = Some (JObject kvs)"
    "map_of kvs ''type'' = Some t" "truthy t"
    "map_of kvs ''data'' = Some d" "truthy d"
    "map_of kvs ''timestamp'' = Some ts" "truthy ts"
  shows "onmessage p raw now s =
     invoke (onMessage (options p)) (OnMessage \<lparr> type = t, data = d, timestamp = ts \<rparr>)
       (s\<lparr> lastMessage := Some \<lparr> type = t, data = d, timestamp = ts \<rparr> \<rparr>)"
  using assms by (simp add: onmessage_def build_message_def)

text \<open>
  The frame \<open>{"type":"log","data":"line2"}\<close> of the specification has no
  timestamp: it is delivered with type \<open>log\<close>, payload \<open>line2\<close> and the time of
  receipt.
\<close>

lemma log_frame_delivered:
  "lastMessage (run example_props initial
      [Connect, SockOpen 0,
       SockMessage 0 ''{\"type\":\"log\",\"data\":\"line2\"}'' ''2024-01-01T00:00:05.000Z'']) =
     Some \<lparr> type = JString ''log'', data = JString ''line2'',
            timestamp = JString ''2024-01-01T00:00:05.000Z'' \<rparr>"
  by (simp add: example_defs hook_defs)

section \<open>sendMessage\<close>

text \<open>
  The consumer connects, disconnects and connects again; the second socket opens,
  and then the close event of the first socket arrives. Its handler sets the status
  to \<open>disconnected\<close> although the current socket is open, and \<open>sendMessage\<close>
  then writes to that socket without reporting anything. Claim C4 as stated (a
  failure in every status other than \<open>connected\<close>) fails here.
\<close>

theorem send_outside_connected_counterexample:
  "connectionStatus (run example_props initial
      [Connect, SockOpen 0, Disconnect, Connect, SockOpen 1, SockClose 0 True]) = Disconnected \<and>
   error (run example_props initial
      [Connect, SockOpen 0, Disconnect, Connect, SockOpen 1, SockClose 0 True,
       SendMessage (Json (JString ''ping'')) False]) = None \<and>
   map sent (sockets (run example_props initial
      [Connect, SockOpen 0, Disconnect, Connect, SockOpen 1, SockClose 0 True,
       SendMessage (Json (JString ''ping'')) False])) = [[], [''ping'']]"
  by (simp add: example_defs hook_defs)

text \<open>
  Claim C4, amended. \<open>sendMessage\<close> called while the current socket is absent
  or not open (connecting, closing, closed) sets the error \<open>Cannot send message:
  not connected\<close> and changes nothing else: nothing is written to any socket, the
  status is unchanged, and the call returns normally.
\<close>

theorem send_without_open_transport:
  assumes "map_option readyState (current_socket s) \<noteq> Some OPEN"
  shows "sendMessage p message write_throws s =
           s\<lparr> error := Some ''Cannot send message: not connected'' \<rparr> \<and>
         sockets (sendMessage p message write_throws s) = sockets s \<and>
         connectionStatus (sendMessage p message write_throws s) = connectionStatus s"
proof -
  have "sendMessage p message write_throws s =
      s\<lparr> error := Some ''Cannot send message: not connected'' \<rparr>"
    unfolding sendMessage_def by (simp only: assms if_False)
  then show ?thesis by simp
qed

text \<open>
  The theorem at scenario 6 of the specification: \<open>{type: 'ping'}\<close> sent while
  the hook is connecting.
\<close>

theorem send_without_open_transport_witness:
  "map_option readyState (current_socket (connect example_props initial)) \<noteq> Some OPEN \<and>
   connectionStatus (connect example_props initial) = Connecting \<and>
   error (sendMessage example_props (Json (JObject [(''type'', JString ''ping'')])) False
      (connect example_props initial)) = Some ''Cannot send message: not connected'' \<and>
   map sent (sockets (sendMessage example_props (Json (JObject [(''type'', JString ''ping'')])) False
      (connect example_props initial))) = [[]] \<and>
   connectionStatus (sendMessage example_props (Json (JObject [(''type'', JString ''ping'')])) False
      (connect example_props initial)) = Connecting"
proof -
  have a: "map_option readyState (current_socket (connect example_props initial)) \<noteq> Some OPEN"
    by (simp add: example_defs hook_defs)
  have b: "connectionStatus (connect example_props initial) = Connecting"
    "map sent (sockets (connect example_props initial)) = [[]]"
    by (simp_all add: example_defs hook_defs)
  from send_without_open_transport [OF a] show ?thesis using a b by simp
qed
text \<open>
  A connected hook whose socket has started closing, and no other: in every state
  the hook reaches with the status \<open>connected\<close>, the current socket is open or
  closing.
\<close>

lemma connected_current_socket:
  assumes "s = run p (mount p) evs" "connectionStatus s = Connected"
  shows "map_option readyState (current_socket s) = Some OPEN \<or>
         map_option readyState (current_socket s) = Some CLOSING"
proof -
  have "coherent s"
    using assms(1) by (simp add: coherent_run coherent_mount)
  with assms(2) show ?thesis
    by (simp add: coherent_def connected_open_def)
qed

text \<open>
  The server starts the closing handshake on the socket of a connected hook: the
  socket is closing, no handler has run, the status is still \<open>connected\<close>, and
  \<open>sendMessage\<close> writes nothing and sets \<open>Cannot send message: not connected\<close>.
  And on an open socket the payload \<open>undefined\<close>, which has no JSON text, is
  written as the text \<open>undefined\<close> without an error. Claim C10 as stated (in the
  state \<open>connected\<close>, every payload written as it is or as its JSON text) fails at
  both.
\<close>

theorem send_connected_counterexample:
  "connectionStatus (run example_props initial [Connect, SockOpen 0, SockClosing 0]) = Connected \<and>
   map readyState (sockets (run example_props initial [Connect, SockOpen 0, SockClosing 0])) =
     [CLOSING] \<and>
   error (run example_props initial
      [Connect, SockOpen 0, SockClosing 0, SendMessage (Json (JString ''line'')) False]) =
     Some ''Cannot send message: not connected'' \<and>
   map sent (sockets (run example_props initial
      [Connect, SockOpen 0, SockClosing 0, SendMessage (Json (JString ''line'')) False])) = [[]] \<and>
   connectionStatus (run example_props initial [Connect, SockOpen 0]) = Connected \<and>
   map sent (sockets (run example_props initial
      [Connect, SockOpen 0, SendMessage Undefined False])) = [[''undefined'']] \<and>
   error (run example_props initial [Connect, SockOpen 0, SendMessage Undefined False]) = None"
  by (simp add: example_defs hook_defs)

text \<open>
  Claim C10, amended. While the current socket is open, \<open>sendMessage\<close> writes a
  string to it as it is and any other JSON value as its \<open>JSON.stringify\<close> text;
  when \<open>JSON.stringify\<close> or \<open>ws.send\<close> throws, the state changes only in the
  error \<open>Failed to send message\<close> and nothing is written; in every case the call
  returns normally and the status is the one before the call, so a connected hook
  stays connected.
\<close>

theorem send_while_open:
  assumes "map_option readyState (current_socket s) = Some OPEN"
  shows "\<exists>i < length (sockets s). ws s = Some i \<and>
           sendMessage p (Json (JString m)) False s =
             s\<lparr> sockets := (sockets s)[i := (sockets s ! i)\<lparr> sent := sent (sockets s ! i) @ [m] \<rparr>] \<rparr> \<and>
           ((\<forall>m'. v \<noteq> JString m') \<longrightarrow>
              sendMessage p (Json v) False s =
                s\<lparr> sockets := (sockets s)[i := (sockets s ! i)
                       \<lparr> sent := sent (sockets s ! i) @ [JSON_stringify p v] \<rparr>] \<rparr>) \<and>
           sendMessage p Unserializable write_throws s =
             s\<lparr> error := Some ''Failed to send message'' \<rparr> \<and>
           sendMessage p message True s = s\<lparr> error := Some ''Failed to send message'' \<rparr> \<and>
           connectionStatus (sendMessage p message write_throws s) = connectionStatus s"
proof -
  from assms obtain i where i: "ws s = Some i" "i < length (sockets s)"
    by (auto simp: current_socket_def split: option.splits if_splits)
  note cur = assms
  have 1: "sendMessage p (Json (JString m)) False s =
      s\<lparr> sockets := (sockets s)[i := (sockets s ! i)\<lparr> sent := sent (sockets s ! i) @ [m] \<rparr>] \<rparr>"
    using cur i(1) by (simp add: sendMessage_def)
  have 2: "sendMessage p (Json v) False s =
      s\<lparr> sockets := (sockets s)[i := (sockets s ! i)
             \<lparr> sent := sent (sockets s ! i) @ [JSON_stringify p v] \<rparr>] \<rparr>"
    if "\<forall>m'. v \<noteq> JString m'"
    using cur i(1) that by (cases v) (simp_all add: sendMessage_def)
  have 3: "sendMessage p Unserializable write_throws s =
      s\<lparr> error := Some ''Failed to send message'' \<rparr>"
    using cur by (simp add: sendMessage_def)
  have 4: "sendMessage p message True s = s\<lparr> error := Some ''Failed to send message'' \<rparr>"
    using cur by (simp add: sendMessage_def split: sum.splits)
  have 5: "connectionStatus (sendMessage p message write_throws s) = connectionStatus s"
    by (simp add: sendMessage_frame)
  from i(1,2) 1 2 3 4 5 show ?thesis by blast
qed

text \<open>
  The theorem after a successful connection: a string, the object
  \<open>{type: 'ping'}\<close>, and a value that cannot be serialized.
\<close>

theorem send_while_open_witness:
  "map_option readyState (current_socket (run example_props (mount example_props)
      [Connect, SockOpen 0])) = Some OPEN \<and>
   connectionStatus (run example_props (mount example_props) [Connect, SockOpen 0]) = Connected \<and>
   map sent (sockets (sendMessage example_props (Json (JString ''line'')) False
      (run example_props (mount example_props) [Connect, SockOpen 0]))) = [[''line'']] \<and>
   map sent (sockets (sendMessage example_props (Json (JObject [(''type'', JString ''ping'')])) False
      (run example_props (mount example_props) [Connect, SockOpen 0]))) = [[''{\"type\":\"ping\"}'']] \<and>
   error (sendMessage example_props Unserializable False
      (run example_props (mount example_props) [Connect, SockOpen 0])) =
     Some ''Failed to send message'' \<and>
   connectionStatus (sendMessage example_props Unserializable False
      (run example_props (mount example_props) [Connect, SockOpen 0])) = Connected"
proof -
  define s where "s = run example_props (mount example_props) [Connect, SockOpen 0]"
  have a: "connectionStatus s = Connected" "ws s = Some 0" "map sent (sockets s) = [[]]"
    "length (sockets s) = 1" "map_option readyState (current_socket s) = Some OPEN"
    by (simp_all add: s_def example_defs hook_defs)
  have n: "\<forall>m'. JObject [(''type'', JString ''ping'')] \<noteq> JString m'" by simp
  have st: "JSON_stringify example_props (JObject [(''type'', JString ''ping'')]) = ''{\"type\":\"ping\"}''"
    by (simp add: example_defs)
  from send_while_open [OF a(5), of example_props "''line''" "JObject [(''type'', JString ''ping'')]" False Unserializable]
  obtain i where i: "i < length (sockets s)" "ws s = Some i"
    "sendMessage example_props (Json (JString ''line'')) False s =
       s\<lparr> sockets := (sockets s)[i := (sockets s ! i)\<lparr> sent := sent (sockets s ! i) @ [''line''] \<rparr>] \<rparr>"
    "sendMessage example_props (Json (JObject [(''type'', JString ''ping'')])) False s =
       s\<lparr> sockets := (sockets s)[i := (sockets s ! i)
          \<lparr> sent := sent (sockets s ! i) @ [JSON_stringify example_props (JObject [(''type'', JString ''ping'')])] \<rparr>] \<rparr>"
    "sendMessage example_props Unserializable False s = s\<lparr> error := Some ''Failed to send message'' \<rparr>"
    using n by blast
  from i(2) a(2) have i0: "i = 0" by simp
  obtain k where k: "sockets s = [k]" "sent k = []"
    using a(3,4) by (cases "sockets s") auto
  show ?thesis
    unfolding s_def [symmetric] using a(1,5) i(3,4,5) i0 k st by simp
qed

section \<open>connect is idempotent\<close>

lemma connect_guarded:
  assumes "url p = None \<or> url p = Some [] \<or>
    map_option readyState (current_socket s) = Some CONNECTING \<or>
    map_option readyState (current_socket s) = Some OPEN"
  shows "connect p s = s"
  using assms by (cases "url p") (auto simp: connect_def)

lemma connect_unguarded:
  assumes "url p = Some u" "u \<noteq> []"
    "map_option readyState (current_socket s) \<noteq> Some CONNECTING"
    "map_option readyState (current_socket s) \<noteq> Some OPEN"
  shows "connect p s =
     (if WebSocket_throws p
      then (if isMountedRef s
            then s\<lparr> isConnecting := False, connectionStatus := Error,
                    error := Some ''Failed to create WebSocket connection'' \<rparr>
            else s\<lparr> isConnecting := True, connectionStatus := Connecting, error := None \<rparr>)
      else s\<lparr> isConnecting := True, connectionStatus := Connecting, error := None,
              sockets := sockets s @
                [\<lparr> target = u, readyState = CONNECTING, sent = [], closeCalls = [] \<rparr>],
              ws := Some (length (sockets s)) \<rparr>)"
proof -
  have g: "(u = [] \<or> map_option readyState (current_socket s) = Some CONNECTING
      \<or> map_option readyState (current_socket s) = Some OPEN) = False"
    using assms(2-4) by blast
  show ?thesis
    unfolding connect_def assms(1) option.case g if_False by (simp add: Let_def)
qed

lemma connect_twice: "connect p (connect p s) = connect p s"
proof (cases "url p = None \<or> url p = Some [] \<or>
    map_option readyState (current_socket s) = Some CONNECTING \<or>
    map_option readyState (current_socket s) = Some OPEN")
  case True
  then have "connect p s = s" by (rule connect_guarded)
  then show ?thesis by simp
next
  case False
  then obtain u where u: "url p = Some u" "u \<noteq> []"
    and r: "map_option readyState (current_socket s) \<noteq> Some CONNECTING"
      "map_option readyState (current_socket s) \<noteq> Some OPEN"
    by auto
  note 1 = connect_unguarded [OF u r]
  show ?thesis
  proof (cases "WebSocket_throws p")
    case True
    have "current_socket (connect p s) = current_socket s"
      by (cases "ws s") (simp_all add: 1 True current_socket_def)
    then have r': "map_option readyState (current_socket (connect p s)) \<noteq> Some CONNECTING"
      "map_option readyState (current_socket (connect p s)) \<noteq> Some OPEN"
      using r by simp_all
    show ?thesis
      by (subst connect_unguarded [OF u r']) (simp add: 1 True)
  next
    case nothrow: False
    have "map_option readyState (current_socket (connect p s)) = Some CONNECTING"
      by (simp add: 1 nothrow current_socket_def)
    then show ?thesis by (simp add: connect_guarded)
  qed
qed

lemma connect_valid_target:
  assumes "coherent s" "url p \<noteq> None" "url p \<noteq> Some []" "\<not> WebSocket_throws p"
  shows "length (open_transports (connect p s)) = 1"
proof -
  from assms(2) obtain u where u: "url p = Some u" by auto
  show ?thesis
  proof (cases "map_option readyState (current_socket s) = Some CONNECTING
      \<or> map_option readyState (current_socket s) = Some OPEN")
    case True
    then have same: "connect p s = s" by (simp add: connect_guarded)
    from True obtain k where k: "current_socket s = Some k" "live k"
      by (auto simp: live_def)
    then have "k \<in> set (sockets s)"
      by (auto simp: current_socket_def split: option.splits if_splits)
    with k(2) have "filter live (sockets s) \<noteq> []"
      by (auto simp: filter_empty_conv)
    then have "1 \<le> length (open_transports s)"
      by (cases "filter live (sockets s)") (simp_all add: open_transports_def)
    moreover have "length (open_transports s) \<le> 1"
      using assms(1) tracked_open_transports [of s] by (simp add: coherent_def)
    ultimately show ?thesis using same by simp
  next
    case False
    with u assms(3,4) have 1: "sockets (connect p s) =
        sockets s @ [\<lparr> target = u, readyState = CONNECTING, sent = [], closeCalls = [] \<rparr>]"
      by (subst connect_unguarded [of p u]) simp_all
    have "\<not> live (sockets s ! i)" if "i < length (sockets s)" for i
    proof
      assume "live (sockets s ! i)"
      with assms(1) that have "current_socket s = Some (sockets s ! i)"
        by (simp add: coherent_def tracked_current)
      with \<open>live (sockets s ! i)\<close> False show False by (simp add: live_def)
    qed
    then have "filter live (sockets s) = []"
      by (auto simp: filter_empty_conv in_set_conv_nth)
    then show ?thesis by (simp add: open_transports_def 1 live_def)
  qed
qed

text \<open>
  Claim C1. A second \<open>connect\<close> changes nothing, and \<open>connect\<close> is a no-op
  whenever the current socket is connecting or open. In every state the hook
  reaches, at most one socket is connecting or open, and for a target that
  \<open>new WebSocket\<close> accepts, two calls of \<open>connect\<close> in succession leave exactly
  one such socket.
\<close>

theorem idempotent_connect:
  "connect p (connect p s) = connect p s \<and>
   (map_option readyState (current_socket s) = Some CONNECTING \<or>
    map_option readyState (current_socket s) = Some OPEN \<longrightarrow> connect p s = s) \<and>
   length (open_transports (run p (mount p) evs)) \<le> 1 \<and>
   (url p \<noteq> None \<and> url p \<noteq> Some [] \<and> \<not> WebSocket_throws p \<longrightarrow>
      length (open_transports (connect p (connect p (run p (mount p) evs)))) = 1)"
proof -
  have c: "coherent (run p (mount p) evs)"
    by (simp add: coherent_run coherent_mount)
  have 1: "connect p (connect p s) = connect p s"
    by (rule connect_twice)
  have 2: "connect p s = s"
    if "map_option readyState (current_socket s) = Some CONNECTING \<or>
        map_option readyState (current_socket s) = Some OPEN"
    using that by (simp add: connect_guarded)
  have 3: "length (open_transports (run p (mount p) evs)) \<le> 1"
    using c tracked_open_transports [of "run p (mount p) evs"] by (simp add: coherent_def)
  have 4: "length (open_transports (connect p (connect p (run p (mount p) evs)))) = 1"
    if "url p \<noteq> None \<and> url p \<noteq> Some [] \<and> \<not> WebSocket_throws p"
    using that c by (simp add: connect_twice connect_valid_target)
  from 1 2 3 4 show ?thesis by blast
qed

text \<open>
  The theorem at a connecting hook, and at a hook whose socket closed abnormally:
  the two calls open one new socket, the second of two.
\<close>

theorem idempotent_connect_witness:
  "map_option readyState (current_socket (run example_props initial [Connect])) = Some CONNECTING \<and>
   connect example_props (run example_props initial [Connect]) = run example_props initial [Connect] \<and>
   url example_props \<noteq> None \<and> url example_props \<noteq> Some [] \<and> \<not> WebSocket_throws example_props \<and>
   length (open_transports (connect example_props (connect example_props
      (run example_props (mount example_props) [Connect, SockOpen 0, SockClose 0 False])))) = 1 \<and>
   length (sockets (connect example_props (connect example_props
      (run example_props (mount example_props) [Connect, SockOpen 0, SockClose 0 False])))) = 2"
proof -
  have a: "map_option readyState (current_socket (run example_props initial [Connect])) = Some CONNECTING"
    by (simp add: example_defs hook_defs)
  have b: "url example_props \<noteq> None \<and> url example_props \<noteq> Some [] \<and> \<not> WebSocket_throws example_props"
    by (simp add: example_defs)
  have c: "length (sockets (connect example_props (connect example_props
      (run example_props (mount example_props) [Connect, SockOpen 0, SockClose 0 False])))) = 2"
    by (simp add: example_defs hook_defs)
  from idempotent_connect [of example_props "run example_props initial [Connect]"
      "[Connect, SockOpen 0, SockClose 0 False]"] a b c
  show ?thesis by simp
qed

section \<open>disconnect\<close>

lemma handler_timers:
  "timers (onopen p s) = timers s" "reconnectTimeoutRef (onopen p s) = reconnectTimeoutRef s"
  "timers (onmessage p raw now s) = timers s"
  "reconnectCountRef (onmessage p raw now s) = reconnectCountRef s"
  "timers (onerror p s) = timers s" "reconnectCountRef (onerror p s) = reconnectCountRef s"
  "timers (sendMessage p m w s) = timers s"
  "reconnectCountRef (sendMessage p m w s) = reconnectCountRef s"
  "timers (set_readyState i r s) = timers s"
  "reconnectCountRef (set_readyState i r s) = reconnectCountRef s"
  by (simp_all add: onopen_def onmessage_def onerror_def sendMessage_def set_readyState_def
      invoke_def Let_def split: sum.splits option.splits)

lemma onclose_timers:
  "timers (onclose p c s) =
     (if isMountedRef s \<and> \<not> c \<and> int (reconnectCountRef s) < reconnectAttempts (options p)
      then timers s @ [\<lparr> pending = True, delay = reconnectInterval (options p) \<rparr>]
      else timers s)"
  "reconnectCountRef (onclose p c s) =
     (if isMountedRef s \<and> \<not> c \<and> int (reconnectCountRef s) < reconnectAttempts (options p)
      then reconnectCountRef s + 1 else reconnectCountRef s)"
  by (simp_all add: onclose_def invoke_def Let_def)




lemma disconnect_effect:
  "isConnected (disconnect s) = False" "isConnecting (disconnect s) = False"
  "error (disconnect s) = None" "reconnectCountRef (disconnect s) = 0"
  "reconnectTimeoutRef (disconnect s) = None" "calls (disconnect s) = calls s"
  "lastMessage (disconnect s) = lastMessage s" "isMountedRef (disconnect s) = isMountedRef s"
  "timers (disconnect s) =
     (case reconnectTimeoutRef s of None \<Rightarrow> timers s | Some t \<Rightarrow> clearTimeout t (timers s))"
  by (simp_all add: disconnect_def Let_def split: option.splits)

text \<open>
  \<open>disconnect\<close> invokes no callback, and a second call right after the first
  changes nothing.
\<close>

lemma disconnect_twice: "disconnect (disconnect s) = disconnect s"
proof -
  have "disconnect s' = s'"
    if "reconnectTimeoutRef s' = None" "ws s' = None" "\<not> isConnected s'" "\<not> isConnecting s'"
      "connectionStatus s' = Disconnected" "error s' = None" "reconnectCountRef s' = 0" for s'
    using that by (simp add: disconnect_def)
  then show ?thesis
    by (simp add: disconnect_effect disconnect_frame)
qed




text \<open>
  Claim C7 at a state with two pending timers. The first socket closes abnormally
  (timer 0 is set), the consumer calls \<open>connect\<close> while that timer is pending, and
  the second socket closes abnormally as well: \<open>onclose\<close> stores the handle of
  timer 1 over that of timer 0. \<open>disconnect\<close> then clears timer 1 only; timer 0
  stays pending, fires, and the hook connects again by itself.
\<close>

theorem overwritten_timer_survives_disconnect:
  "map pending (timers (run example_props initial
      [Connect, SockOpen 0, SockClose 0 False, Connect, SockClose 1 False])) = [True, True] \<and>
   map pending (timers (run example_props initial
      [Connect, SockOpen 0, SockClose 0 False, Connect, SockClose 1 False, Disconnect])) =
     [True, False] \<and>
   connectionStatus (run example_props initial
      [Connect, SockOpen 0, SockClose 0 False, Connect, SockClose 1 False, Disconnect]) =
     Disconnected \<and>
   connectionStatus (run example_props initial
      [Connect, SockOpen 0, SockClose 0 False, Connect, SockClose 1 False, Disconnect,
       TimerFire 0]) = Connecting \<and>
   map readyState (sockets (run example_props initial
      [Connect, SockOpen 0, SockClose 0 False, Connect, SockClose 1 False, Disconnect,
       TimerFire 0])) = [CLOSED, CLOSED, CONNECTING]"
  by (simp add: example_defs hook_defs)

section \<open>Bounded retry\<close>

lemma none_connecting_same:
  assumes "list_all (\<lambda>k. readyState k \<noteq> CONNECTING) (sockets s)"
    "length (sockets s') = length (sockets s)"
    "\<And>i. i < length (sockets s) \<Longrightarrow>
       readyState (sockets s' ! i) = readyState (sockets s ! i) \<or>
       readyState (sockets s' ! i) = CLOSING \<or>
       readyState (sockets s' ! i) = CLOSED"
  shows "list_all (\<lambda>k. readyState k \<noteq> CONNECTING) (sockets s')"
  unfolding list_all_length
proof (intro allI impI)
  fix i assume "i < length (sockets s')"
  with assms(2) have i: "i < length (sockets s)" by simp
  with assms(1) have "readyState (sockets s ! i) \<noteq> CONNECTING"
    by (simp add: list_all_length)
  with assms(3) [OF i] show "readyState (sockets s' ! i) \<noteq> CONNECTING" by auto
qed

lemma exhausted_sendMessage:
  assumes "exhausted p s"
  shows "exhausted p (sendMessage p m w s)"
proof -
  have "list_all (\<lambda>k. readyState k \<noteq> CONNECTING) (sockets (sendMessage p m w s))"
    by (rule none_connecting_same [of s])
      (use assms in \<open>simp_all add: exhausted_def sendMessage_frame\<close>)
  with assms show ?thesis
    by (simp add: exhausted_def handler_timers)
qed

lemma exhausted_onmessage:
  assumes "exhausted p s"
  shows "exhausted p (onmessage p raw now s)"
  using assms by (simp add: exhausted_def handler_timers onmessage_frame)

lemma exhausted_onerror:
  assumes "exhausted p s"
  shows "exhausted p (onerror p s)"
  using assms by (simp add: exhausted_def handler_timers onerror_frame)

lemma exhausted_onclose:
  assumes "exhausted p s" "i < length (sockets s)"
  shows "exhausted p (onclose p c (set_readyState i CLOSED s))"
    and "timers (onclose p c (set_readyState i CLOSED s)) = timers s"
proof -
  let ?s' = "onclose p c (set_readyState i CLOSED s)"
  have n: "\<not> int (reconnectCountRef s) < reconnectAttempts (options p)"
    using assms(1) by (simp add: exhausted_def)
  then show t: "timers ?s' = timers s"
    by (simp add: onclose_timers handler_timers)
  have r: "reconnectCountRef ?s' = reconnectCountRef s"
    using n by (simp add: onclose_timers handler_timers)
  have "list_all (\<lambda>k. readyState k \<noteq> CONNECTING) (sockets ?s')"
    by (rule none_connecting_same [of s])
      (use assms in \<open>simp_all add: exhausted_def onclose_frame set_readyState_frame
          nth_list_update\<close>)
  with assms(1) t r show "exhausted p ?s'"
    by (simp add: exhausted_def)
qed

lemma exhausted_closing:
  assumes "exhausted p s" "i < length (sockets s)"
  shows "exhausted p (set_readyState i CLOSING s)"
proof -
  have "list_all (\<lambda>k. readyState k \<noteq> CONNECTING) (sockets (set_readyState i CLOSING s))"
    by (rule none_connecting_same [of s])
      (use assms in \<open>simp_all add: exhausted_def set_readyState_frame nth_list_update\<close>)
  with assms(1) show ?thesis
    by (simp add: exhausted_def handler_timers)
qed

lemma exhausted_step:
  assumes "exhausted p s" "automatic e"
  shows "exhausted p (step p s e) \<and> length (sockets (step p s e)) = length (sockets s) \<and>
         timers (step p s e) = timers s \<and>
         (connectionStatus (step p s e) = Connecting \<longrightarrow> connectionStatus s = Connecting)"
proof (cases e)
  case (SendMessage m w)
  with assms(1) show ?thesis
    by (simp add: exhausted_sendMessage handler_timers sendMessage_frame)
next
  case (SockOpen i)
  have "readyState (sockets s ! i) \<noteq> CONNECTING" if "i < length (sockets s)"
    using assms(1) that by (simp add: exhausted_def list_all_length)
  then have "step p s e = s" by (auto simp: SockOpen)
  with assms(1) show ?thesis by simp
next
  case (SockMessage i raw now)
  with assms(1) show ?thesis
    by (simp add: exhausted_onmessage handler_timers onmessage_frame)
next
  case (SockError i)
  with assms(1) show ?thesis
    by (simp add: exhausted_onerror handler_timers onerror_frame)
next
  case (SockClosing i)
  with assms(1) show ?thesis
    by (simp add: exhausted_closing handler_timers set_readyState_frame)
next
  case (SockClose i c)
  with assms(1) show ?thesis
    by (simp add: exhausted_onclose onclose_frame set_readyState_frame)
next
  case (TimerFire t)
  have "\<not> pending (timers s ! t)" if "t < length (timers s)"
    using assms(1) that by (simp add: exhausted_def list_all_length)
  then have "step p s e = s" by (auto simp: TimerFire)
  with assms(1) show ?thesis by simp
next
  case Connect
  with assms(2) show ?thesis by simp
next
  case Disconnect
  with assms(2) show ?thesis by simp
next
  case Unmount
  with assms(2) show ?thesis by simp
qed

lemma exhausted_run:
  assumes "exhausted p s" "list_all automatic evs"
  shows "exhausted p (run p s evs) \<and> length (sockets (run p s evs)) = length (sockets s) \<and>
         timers (run p s evs) = timers s \<and>
         (connectionStatus (run p s evs) = Connecting \<longrightarrow> connectionStatus s = Connecting)"
  using assms
proof (induction evs arbitrary: s)
  case Nil
  then show ?case by (simp add: run_def)
next
  case (Cons e evs)
  from Cons.prems have e: "automatic e" and evs: "list_all automatic evs"
    by simp_all
  note 1 = exhausted_step [OF Cons.prems(1) e]
  from 1 have "exhausted p (step p s e)" by simp
  from Cons.IH [OF this evs] 1 show ?case by (simp add: run_def)
qed

text \<open>
  With one retry allowed: the socket closes abnormally (the timer is set and the
  counter reaches 1), the consumer calls \<open>connect\<close> while the timer is pending,
  and the new socket closes abnormally. This close finds the counter at the maximum
  and sets no timer; the timer set before is still pending, fires, and the hook is
  connecting again without a call of the consumer. Claim C3 as stated fails here.
\<close>

theorem pending_retry_after_exhaustion_counterexample:
  "reconnectAttempts (options one_retry_props) = 1 \<and>
   reconnectCountRef (run one_retry_props initial
      [Connect, SockOpen 0, SockClose 0 False, Connect]) = 1 \<and>
   timers (run one_retry_props initial
      [Connect, SockOpen 0, SockClose 0 False, Connect, SockClose 1 False]) =
   timers (run one_retry_props initial [Connect, SockOpen 0, SockClose 0 False, Connect]) \<and>
   connectionStatus (run one_retry_props initial
      [Connect, SockOpen 0, SockClose 0 False, Connect, SockClose 1 False]) = Error \<and>
   connectionStatus (run one_retry_props initial
      [Connect, SockOpen 0, SockClose 0 False, Connect, SockClose 1 False, TimerFire 0]) =
     Connecting \<and>
   map readyState (sockets (run one_retry_props initial
      [Connect, SockOpen 0, SockClose 0 False, Connect, SockClose 1 False, TimerFire 0])) =
     [CLOSED, CLOSED, CONNECTING]"
  by (simp add: example_defs hook_defs)

text \<open>
  Claim C3, amended. A close sets a retry timer exactly when the hook is mounted,
  the close is abnormal and the counter is below \<open>reconnectAttempts\<close>. Once the
  counter has reached \<open>reconnectAttempts\<close> while no timer set earlier is pending
  and no socket is connecting, no event of the transport or of a timer and no
  \<open>sendMessage\<close> creates a socket, sets a timer or moves the status to
  \<open>connecting\<close>: that takes a call of \<open>connect\<close> (or of \<open>disconnect\<close>, which
  resets the counter).
\<close>

theorem bounded_retry:
  "(timers (onclose p wasClean s) \<noteq> timers s \<longleftrightarrow>
      isMountedRef s \<and> \<not> wasClean \<and> int (reconnectCountRef s) < reconnectAttempts (options p)) \<and>
   (exhausted p s \<and> list_all automatic evs \<longrightarrow>
      exhausted p (run p s evs) \<and>
      length (sockets (run p s evs)) = length (sockets s) \<and>
      timers (run p s evs) = timers s \<and>
      (connectionStatus (run p s evs) = Connecting \<longrightarrow> connectionStatus s = Connecting))"
  using exhausted_run [of p s evs] by (simp add: onclose_timers)

text \<open>
  The theorem at scenario 4 of the specification: two retries allowed, three
  abnormal closes in a row.
\<close>

theorem bounded_retry_witness:
  "exhausted example_props (run example_props initial
      [Connect, SockOpen 0, SockClose 0 False, TimerFire 0, SockClose 1 False, TimerFire 1,
       SockClose 2 False]) \<and>
   list_all automatic [SockError 2, TimerFire 0, TimerFire 1, SockOpen 2, SockClose 2 False,
      SendMessage (Json (JString ''ping'')) False] \<and>
   connectionStatus (run example_props initial
      [Connect, SockOpen 0, SockClose 0 False, TimerFire 0, SockClose 1 False, TimerFire 1,
       SockClose 2 False]) = Error \<and>
   length (sockets (run example_props (run example_props initial
      [Connect, SockOpen 0, SockClose 0 False, TimerFire 0, SockClose 1 False, TimerFire 1,
       SockClose 2 False])
      [SockError 2, TimerFire 0, TimerFire 1, SockOpen 2, SockClose 2 False,
       SendMessage (Json (JString ''ping'')) False])) = 3 \<and>
   connectionStatus (run example_props (run example_props initial
      [Connect, SockOpen 0, SockClose 0 False, TimerFire 0, SockClose 1 False, TimerFire 1,
       SockClose 2 False])
      [SockError 2, TimerFire 0, TimerFire 1, SockOpen 2, SockClose 2 False,
       SendMessage (Json (JString ''ping'')) False]) \<noteq> Connecting"
proof -
  define s where "s = run example_props initial
      [Connect, SockOpen 0, SockClose 0 False, TimerFire 0, SockClose 1 False, TimerFire 1,
       SockClose 2 False]"
  define evs where "evs = [SockError 2, TimerFire 0, TimerFire 1, SockOpen 2, SockClose 2 False,
      SendMessage (Json (JString ''ping'')) False]"
  have a: "exhausted example_props s" "connectionStatus s = Error" "length (sockets s) = 3"
    by (simp_all add: s_def exhausted_def example_defs hook_defs)
  have l: "list_all automatic evs"
    by (simp add: evs_def)
  from bounded_retry [of example_props False s evs] a l
  show ?thesis unfolding s_def [symmetric] evs_def [symmetric] by simp
qed

end
